theory Spec2Isabelle
  imports Complex_Main "HOL-Library.Word" "HOL-Library.Monad_Syntax"
begin

unbundle bit_operations_syntax

section \<open>GNSS base-station monitor: \<open>src/utils/gnss_client.py\<close>\<close>

text \<open>
  The embedding follows \<open>gnss_client.py\<close> function by function.

  \<^item> Python floats are idealised as real numbers: arithmetic and the \<open>math\<close> functions
    are exact, and rounding error, signed zeros, NaN and overflow are outside the
    model. The one effect of rounding that the model keeps is the one that decides
    whether a division raises: \<open>math.cos\<close> never returns \<open>0.0\<close> (see \<open>math_cos\<close>).
  \<^item> A call that raises returns \<open>None\<close> in the option monad; the handlers of
    \<open>update_status\<close> catch every \<open>Exception\<close>, so the kind of the exception never
    matters.
  \<^item> \<open>RTCMReader.read\<close> belongs to the third-party package \<open>pyrtcm\<close>. It is a
    parameter \<open>rtr_read\<close> of the model: a function from the bytes of the stream to what
    one call of \<open>read\<close> on a fresh reader does. Where a concrete reader is needed,
    \<open>parse_frame\<close> is the frame parser as the specification describes it.
  \<^item> The socket is the environment: whether a connection attempt succeeds and what one
    receive does are inputs of \<open>update_status\<close>.
\<close>

subsection \<open>Data\<close>

type_synonym byte = "8 word"

record BaseStationStatus =
  latitude :: real
  longitude :: real
  altitude :: real
  accuracy_mm :: int
  is_fixed_mode :: bool
  is_survey_in_active :: bool
  survey_in_duration :: int

text \<open>\<open>BaseStationStatus()\<close>: the dataclass defaults.\<close>

definition BaseStationStatus_init :: BaseStationStatus where
  "BaseStationStatus_init =
     \<lparr>latitude = 0, longitude = 0, altitude = 0, accuracy_mm = 0,
      is_fixed_mode = False, is_survey_in_active = False, survey_in_duration = 0\<rparr>"

text \<open>
  The attributes of a parsed message that \<open>update_status\<close> reads. A field is \<open>None\<close>
  when reading the attribute raises (the attribute is absent).
\<close>

record RTCMMessage =
  identity :: string
  DF025 :: "real option"
  DF026 :: "real option"
  DF027 :: "real option"

text \<open>
  One call \<open>rtr.read()\<close>: it raises, or it returns the pair
  \<open>(raw_data, parsed_data)\<close>, each of which may be Python's \<open>None\<close>.
\<close>

datatype read_result =
    Raises
  | Returns "byte list option" "RTCMMessage option"

datatype py_socket = Socket

datatype log_record = Info_connected | Error_connect | Error_read

record GnssMonitor =
  status :: BaseStationStatus
  socket :: "py_socket option"
  buffer :: "byte list"
  logger :: "log_record list"

text \<open>\<open>GnssMonitor.__init__\<close>\<close>

definition GnssMonitor_init :: GnssMonitor where
  "GnssMonitor_init =
     \<lparr>status = BaseStationStatus_init, socket = None, buffer = [], logger = []\<rparr>"

subsection \<open>The \<open>math\<close> module and \<open>round\<close> on reals\<close>

definition math_sqrt :: "real \<Rightarrow> real option" where
  "math_sqrt v = (if v < 0 then None else Some (sqrt v))"

text \<open>Float division raises \<open>ZeroDivisionError\<close> on a zero divisor.\<close>

definition float_div :: "real \<Rightarrow> real \<Rightarrow> real option" where
  "float_div n d = (if d = 0 then None else Some (n / d))"

text \<open>
  \<open>math.atan2(y, x)\<close>: the angle of the point \<open>(x, y)\<close> in \<open>(-\<pi>, \<pi>]\<close>;
  \<open>math.atan2(0.0, 0.0)\<close> is \<open>0.0\<close>.
\<close>

definition math_atan2 :: "real \<Rightarrow> real \<Rightarrow> real" where
  "math_atan2 y x =
     (if 0 < x then arctan (y / x)
      else if x < 0 \<and> 0 \<le> y then arctan (y / x) + pi
      else if x < 0 \<and> y < 0 then arctan (y / x) - pi
      else if 0 < y then pi / 2
      else if y < 0 then - (pi / 2)
      else 0)"

text \<open>
  \<open>math.cos\<close>. No double is an odd multiple of \<open>\<pi> / 2\<close>, so on doubles the cosine is
  never \<open>0.0\<close>: at the double nearest \<open>\<pi> / 2\<close> or \<open>- \<pi> / 2\<close>, which is what \<open>math.atan2\<close>
  returns for a right angle, \<open>math.cos\<close> returns \<open>6.123233995736766e-17\<close>. The model is
  the real cosine with that value at its zeros, so that \<open>p / math.cos(lat)\<close> returns
  where the program returns.
\<close>

definition math_cos :: "real \<Rightarrow> real" where
  "math_cos t = (if cos t = 0 then 6123233995736766 / 10 ^ 32 else cos t)"

definition math_degrees :: "real \<Rightarrow> real" where
  "math_degrees r = r * (180 / pi)"

text \<open>
  \<open>round(x, ndigits)\<close> on a float: the nearest multiple of \<open>10 ^ (- ndigits)\<close>, a tie
  going to the even multiple.
\<close>

definition py_round :: "real \<Rightarrow> nat \<Rightarrow> real" where
  "py_round x ndigits =
     (let s = x * 10 ^ ndigits;
          fl = \<lfloor>s\<rfloor>;
          d = s - of_int fl
      in of_int (if d < 1 / 2 then fl
                 else if 1 / 2 < d then fl + 1
                 else if even fl then fl
                 else fl + 1) / 10 ^ ndigits)"

subsection \<open>\<open>ecef_to_geodetic\<close>\<close>

text \<open>
  Lines 25 to 42. The divisors \<open>298.257223563\<close> and \<open>b**2\<close> are non-zero constants;
  the two divisions by computed values and the two square roots are the operations
  that can raise.
\<close>

definition ecef_to_geodetic :: "real \<Rightarrow> real \<Rightarrow> real \<Rightarrow> (real \<times> real \<times> real) option" where
  "ecef_to_geodetic x y z =
     (let a = 6378137;
          f = 1 / 298.257223563;
          e2 = 2 * f - f ^ 2;
          b = a * (1 - f);
          ep2 = (a ^ 2 - b ^ 2) / b ^ 2
      in do {
        p \<leftarrow> math_sqrt (x ^ 2 + y ^ 2);
        let theta = math_atan2 (z * a) (p * b);
        let lon = math_atan2 y x;
        let lat = math_atan2 (z + ep2 * b * sin theta ^ 3) (p - e2 * a * math_cos theta ^ 3);
        s \<leftarrow> math_sqrt (1 - e2 * sin lat ^ 2);
        N \<leftarrow> float_div a s;
        q \<leftarrow> float_div p (math_cos lat);
        let height = q - N;
        Some (math_degrees lat, math_degrees lon, height)
      })"

subsection \<open>\<open>GnssMonitor.connect\<close>\<close>

text \<open>
  Lines 56 to 65. \<open>ok\<close> says whether creating, connecting and configuring the socket
  all succeed; any exception leaves \<open>_socket = None\<close>.
\<close>

definition connect :: "bool \<Rightarrow> GnssMonitor \<Rightarrow> GnssMonitor" where
  "connect ok m =
     (if ok then m\<lparr>socket := Some Socket, logger := logger m @ [Info_connected]\<rparr>
      else m\<lparr>socket := None, logger := logger m @ [Error_connect]\<rparr>)"

subsection \<open>\<open>GnssMonitor.update_status\<close>\<close>

text \<open>
  Lines 90 to 100, for a truthy \<open>parsed_data\<close>: the new status, or \<open>None\<close> when reading a
  field or converting raises. The three assignments come after the conversion, so an
  exception leaves the status as it was.
\<close>

definition position_update :: "RTCMMessage \<Rightarrow> BaseStationStatus \<Rightarrow> BaseStationStatus option" where
  "position_update parsed_data st =
     (if identity parsed_data = ''1005'' then do {
        x \<leftarrow> DF025 parsed_data;
        y \<leftarrow> DF026 parsed_data;
        z \<leftarrow> DF027 parsed_data;
        (lat, lon, height) \<leftarrow> ecef_to_geodetic x y z;
        Some (st\<lparr>latitude := py_round lat 8,
                 longitude := py_round lon 8,
                 altitude := py_round height 2\<rparr>)
      } else Some st)"

datatype loop_ctl = Continue | Break

text \<open>
  Lines 83 to 110: one iteration of the \<open>while\<close> loop. Every exception between the
  \<open>try\<close> and the \<open>except\<close> drops the first byte of the buffer; \<open>len(raw_data)\<close> raises
  when \<open>raw_data\<close> is \<open>None\<close>, after the status has been written.
\<close>

definition loop_body :: "(byte list \<Rightarrow> read_result) \<Rightarrow> GnssMonitor \<Rightarrow> loop_ctl \<times> GnssMonitor" where
  "loop_body rtr_read m =
     (case rtr_read (buffer m) of
        Raises \<Rightarrow> (Continue, m\<lparr>buffer := drop 1 (buffer m)\<rparr>)
      | Returns raw_data parsed_data \<Rightarrow>
          (case parsed_data of
             None \<Rightarrow> (Break, m)
           | Some msg \<Rightarrow>
               (case position_update msg (status m) of
                  None \<Rightarrow> (Continue, m\<lparr>buffer := drop 1 (buffer m)\<rparr>)
                | Some st \<Rightarrow>
                    (case raw_data of
                       None \<Rightarrow> (Continue, m\<lparr>status := st, buffer := drop 1 (buffer m)\<rparr>)
                     | Some raw \<Rightarrow>
                         (Continue, m\<lparr>status := st,
                                      buffer := drop (length raw) (buffer m)\<rparr>)))))"

text \<open>
  Lines 82 to 110: the \<open>while len(self._buffer) > 0\<close> loop. It need not terminate (a
  reader may return a message with empty \<open>raw_data\<close>), so not returning is \<open>None\<close>.
\<close>

partial_function (option) drain :: "(byte list \<Rightarrow> read_result) \<Rightarrow> GnssMonitor \<Rightarrow> GnssMonitor option" where
  "drain rtr_read m =
     (if 0 < length (buffer m) then
        (case loop_body rtr_read m of
           (Continue, m') \<Rightarrow> drain rtr_read m'
         | (Break, m') \<Rightarrow> Some m')
      else Some m)"

text \<open>What \<open>sock_recv(self._socket, 1024)\<close> does in one cycle.\<close>

datatype recv_result = RecvRaises | RecvData "byte list"

text \<open>
  Lines 67 to 117. The result is \<open>None\<close> when the call does not return; otherwise the
  returned value (Python's \<open>None\<close> or the status object) and the monitor after the call.
\<close>

definition update_status ::
  "(byte list \<Rightarrow> read_result) \<Rightarrow> bool \<Rightarrow> recv_result \<Rightarrow> GnssMonitor
     \<Rightarrow> (BaseStationStatus option \<times> GnssMonitor) option" where
  "update_status rtr_read connect_ok recv m =
     (let m1 = (if socket m = None then connect connect_ok m else m)
      in if socket m1 = None then Some (None, m1)
         else (case recv of
                 RecvRaises \<Rightarrow>
                   Some (None, m1\<lparr>socket := None, logger := logger m1 @ [Error_read]\<rparr>)
               | RecvData data \<Rightarrow>
                   (if data \<noteq> [] then do {
                      m2 \<leftarrow> drain rtr_read (m1\<lparr>buffer := buffer m1 @ data\<rparr>);
                      Some (Some (status m2), m2)
                    } else Some (Some (status m1), m1))))"

subsection \<open>The conversion as the specification states it\<close>

text \<open>
  Section 4.3 of the specification, formula by formula: the constants of the
  ellipsoid, then \<open>p\<close>, \<open>\<theta>\<close>, \<open>lon\<close>, \<open>lat\<close>, \<open>N\<close>, the height, and the latitude and
  longitude in degrees. These definitions follow the specification's words, not the
  source; \<open>sqrt\<close>, \<open>atan2\<close>, \<open>sin\<close> and \<open>cos\<close> are the functions of the \<open>math\<close> module.
\<close>

definition wgs84_a :: real where
  "wgs84_a = 6378137"

definition wgs84_f :: real where
  "wgs84_f = 1 / 298.257223563"

definition wgs84_b :: real where
  "wgs84_b = wgs84_a * (1 - wgs84_f)"

definition wgs84_e2 :: real where
  "wgs84_e2 = 2 * wgs84_f - wgs84_f\<^sup>2"

definition wgs84_ep2 :: real where
  "wgs84_ep2 = (wgs84_a\<^sup>2 - wgs84_b\<^sup>2) / wgs84_b\<^sup>2"

definition bowring_p :: "real \<Rightarrow> real \<Rightarrow> real" where
  "bowring_p x y = sqrt (x\<^sup>2 + y\<^sup>2)"

definition bowring_theta :: "real \<Rightarrow> real \<Rightarrow> real \<Rightarrow> real" where
  "bowring_theta x y z = math_atan2 (z * wgs84_a) (bowring_p x y * wgs84_b)"

definition bowring_lon :: "real \<Rightarrow> real \<Rightarrow> real" where
  "bowring_lon x y = math_atan2 y x"

definition bowring_lat :: "real \<Rightarrow> real \<Rightarrow> real \<Rightarrow> real" where
  "bowring_lat x y z =
     math_atan2 (z + wgs84_ep2 * wgs84_b * (sin (bowring_theta x y z)) ^ 3)
                (bowring_p x y - wgs84_e2 * wgs84_a * (math_cos (bowring_theta x y z)) ^ 3)"

definition bowring_N :: "real \<Rightarrow> real \<Rightarrow> real \<Rightarrow> real" where
  "bowring_N x y z = wgs84_a / sqrt (1 - wgs84_e2 * (sin (bowring_lat x y z))\<^sup>2)"



text \<open>
  A reader makes progress when the \<open>raw_data\<close> of every message it returns is not
  empty. With such a reader every iteration that continues shortens the buffer, and
  the loop terminates.
\<close>

definition reader_progress :: "(byte list \<Rightarrow> read_result) \<Rightarrow> bool" where
  "reader_progress rtr_read =
     (\<forall>bs raw msg. rtr_read bs = Returns (Some raw) (Some msg) \<longrightarrow> raw \<noteq> [])"

subsection \<open>The frame parser of the specification\<close>

text \<open>
  Modelled from the spec: what the specification leaves open in the wire format
  (section 6: a 1-byte preamble, a 2-byte length, the payload, a 3-byte checksum),
  namely the value of the preamble, the checksum function and the decoding of a
  payload (\<open>None\<close> when it raises).
\<close>

record frame_format =
  fmt_preamble :: byte
  fmt_checksum :: "byte list \<Rightarrow> byte list"
  fmt_decode :: "byte list \<Rightarrow> RTCMMessage option"

text \<open>
  Modelled from the spec: the payload length, the 10 significant bits of the two
  bytes after the preamble (section 6).
\<close>

definition payload_length :: "byte \<Rightarrow> byte \<Rightarrow> nat" where
  "payload_length b1 b2 = (unat b1 mod 4) * 256 + unat b2"

text \<open>
  Modelled from the spec: the frame parser that the framer calls at offset 0 of the
  buffer (sections 4.2, 6 and 9), which the repository takes from the third-party
  package \<open>pyrtcm\<close> and which is not under \<open>src/\<close>. One attempt has three outcomes: a
  complete, checksum-valid message with the bytes it occupies (the header, the
  payload and the checksum); not enough bytes yet to determine completeness, which
  returns no message; or a structural error (bad preamble, checksum mismatch, a
  payload that does not decode), which raises.
\<close>

definition parse_frame :: "frame_format \<Rightarrow> byte list \<Rightarrow> read_result" where
  "parse_frame fmt bs =
     (case bs of
        [] \<Rightarrow> Returns None None
      | p # hdr \<Rightarrow>
          (if p \<noteq> fmt_preamble fmt then Raises
           else (case hdr of
                   b1 # b2 # body \<Rightarrow>
                     (let n = payload_length b1 b2 in
                      if length body < n + 3 then Returns None None
                      else if take 3 (drop n body) \<noteq> fmt_checksum fmt (take (n + 3) bs)
                      then Raises
                      else (case fmt_decode fmt (take n body) of
                              None \<Rightarrow> Raises
                            | Some msg \<Rightarrow> Returns (Some (take (n + 6) bs)) (Some msg)))
                 | _ \<Rightarrow> Returns None None)))"

text \<open>
  Modelled from the spec: the wire format is ``a published open standard'' (section
  4.2), RTCM 3, whose station-position message has the identity \<open>1005\<close> (glossary).
  The values of that standard which the specification does not repeat: the preamble
  \<open>0xD3\<close>; the CRC-24Q checksum (polynomial \<open>0x1864CFB\<close>) of the header and the
  payload; the message number in the first 12 bits of the payload, whose decimal
  digits are the identity; and, in the 19-byte payload of message 1005, the three
  coordinates as 38-bit signed counts of 0.1 mm at bit offsets 34, 74 and 114.
\<close>

definition crc24q_shift :: "nat \<Rightarrow> nat" where
  "crc24q_shift c =
     (let d = 2 * c in if d div 0x1000000 mod 2 = 1 then d XOR 0x1864CFB else d)"

definition crc24q_octet :: "nat \<Rightarrow> byte \<Rightarrow> nat" where
  "crc24q_octet c octet =
     crc24q_shift (crc24q_shift (crc24q_shift (crc24q_shift (crc24q_shift (crc24q_shift
       (crc24q_shift (crc24q_shift (c XOR (unat octet * 0x10000)))))))))"

definition crc24q :: "byte list \<Rightarrow> nat" where
  "crc24q bs = foldl crc24q_octet 0 bs mod 0x1000000"

definition rtcm3_checksum :: "byte list \<Rightarrow> byte list" where
  "rtcm3_checksum bs =
     (let c = crc24q bs
      in [of_nat (c div 0x10000), of_nat (c div 0x100 mod 0x100), of_nat (c mod 0x100)])"

definition payload_value :: "byte list \<Rightarrow> nat" where
  "payload_value payload = foldl (\<lambda>acc b. acc * 256 + unat b) 0 payload"

definition bit_field :: "byte list \<Rightarrow> nat \<Rightarrow> nat \<Rightarrow> nat" where
  "bit_field payload off n =
     payload_value payload div 2 ^ (8 * length payload - off - n) mod 2 ^ n"

definition signed_field :: "byte list \<Rightarrow> nat \<Rightarrow> nat \<Rightarrow> int" where
  "signed_field payload off n =
     (let v = bit_field payload off n in if v < 2 ^ (n - 1) then int v else int v - 2 ^ n)"

fun decimal :: "nat \<Rightarrow> string" where
  "decimal n =
     (if n < 10 then [char_of (48 + n)]
      else decimal (n div 10) @ [char_of (48 + n mod 10)])"

declare decimal.simps [simp del]

definition rtcm3_coordinate :: "byte list \<Rightarrow> nat \<Rightarrow> real option" where
  "rtcm3_coordinate payload off =
     (if bit_field payload 0 12 = 1005 \<and> length payload = 19
      then Some (real_of_int (signed_field payload off 38) / 10000)
      else None)"

definition rtcm3_decode :: "byte list \<Rightarrow> RTCMMessage option" where
  "rtcm3_decode payload =
     (if length payload < 2 then None
      else Some \<lparr>identity = decimal (bit_field payload 0 12),
                 DF025 = rtcm3_coordinate payload 34,
                 DF026 = rtcm3_coordinate payload 74,
                 DF027 = rtcm3_coordinate payload 114\<rparr>)"

definition rtcm3 :: frame_format where
  "rtcm3 = \<lparr>fmt_preamble = 0xD3, fmt_checksum = rtcm3_checksum, fmt_decode = rtcm3_decode\<rparr>"

definition rtcm3_read :: "byte list \<Rightarrow> read_result" where
  "rtcm3_read = parse_frame rtcm3"

text \<open>
  Two frames of that format. \<open>position_frame\<close> is message 1005 for the point
  \<open>(6400000, 0, 0)\<close>. \<open>short_position_frame\<close> is a checksum-valid frame with message
  number 1005 and a payload of 5 bytes instead of 19, so that it has no coordinates;
  its last three payload bytes are \<open>0xD3, 0x03, 0xFF\<close>.
\<close>

definition position_frame :: "byte list" where
  "position_frame =
     [0xD3, 0x00, 0x13,
      0x3E, 0xD0, 0x00, 0x00, 0x0E, 0xE6, 0xB2, 0x80, 0x00, 0x00,
      0x00, 0x00, 0x00, 0x00, 0x00, 0x00, 0x00, 0x00, 0x00,
      0x90, 0xAA, 0xF4]"

definition short_position_frame :: "byte list" where
  "short_position_frame =
     [0xD3, 0x00, 0x05, 0x3E, 0xD0, 0xD3, 0x03, 0xFF, 0xA8, 0x90, 0x8C]"

subsection \<open>A small framing reader\<close>

text \<open>
  A second, smaller instance of the reader parameter, used to run the model on short
  concrete buffers. Its
  frames are a preamble byte \<open>0xD3\<close>, one length byte, the payload and one checksum
  byte (the sum of the payload). The first payload byte is the message type: type \<open>5\<close>
  is the station position, identity \<open>1005\<close>, whose three coordinates are the next three
  bytes, each a signed count of units of 100 km; a position payload of any other
  length decodes without coordinates. It is not the wire format of \<open>pyrtcm\<close>.
\<close>

definition sample_coord :: "byte \<Rightarrow> real" where
  "sample_coord c = real_of_int (sint c) * 100000"

definition sample_parse :: "byte list \<Rightarrow> RTCMMessage" where
  "sample_parse payload =
     (case payload of
        [] \<Rightarrow> \<lparr>identity = ''0'', DF025 = None, DF026 = None, DF027 = None\<rparr>
      | t # coords \<Rightarrow>
          (if t = 5 then
             (case coords of
                [x, y, z] \<Rightarrow>
                  \<lparr>identity = ''1005'', DF025 = Some (sample_coord x),
                   DF026 = Some (sample_coord y), DF027 = Some (sample_coord z)\<rparr>
              | _ \<Rightarrow> \<lparr>identity = ''1005'', DF025 = None, DF026 = None, DF027 = None\<rparr>)
           else \<lparr>identity = ''1077'', DF025 = None, DF026 = None, DF027 = None\<rparr>))"

definition sample_read :: "byte list \<Rightarrow> read_result" where
  "sample_read bs =
     (case bs of
        [] \<Rightarrow> Returns None None
      | h # rest \<Rightarrow>
          (if h \<noteq> 0xD3 then Raises
           else (case rest of
                   [] \<Rightarrow> Returns None None
                 | n # body \<Rightarrow>
                     (if length body < unat n + 1 then Returns None None
                      else if body ! unat n \<noteq> sum_list (take (unat n) body) then Raises
                      else Returns (Some (take (unat n + 3) bs))
                                   (Some (sample_parse (take (unat n) body)))))))"

section \<open>The decode loop\<close>

lemma drain_empty: "buffer m = [] \<Longrightarrow> drain rtr_read m = Some m"
  by (subst drain.simps) simp

lemma drain_continue:
  "buffer m \<noteq> [] \<Longrightarrow> loop_body rtr_read m = (Continue, m') \<Longrightarrow>
     drain rtr_read m = drain rtr_read m'"
  by (subst drain.simps) simp

lemma drain_break:
  "buffer m \<noteq> [] \<Longrightarrow> loop_body rtr_read m = (Break, m') \<Longrightarrow> drain rtr_read m = Some m'"
  by (subst drain.simps) simp

lemma loop_body_raises:
  "rtr_read (buffer m) = Raises \<Longrightarrow>
     loop_body rtr_read m = (Continue, m\<lparr>buffer := drop 1 (buffer m)\<rparr>)"
  by (simp add: loop_body_def)

lemma loop_body_raises_at:
  "rtr_read (drop k bs) = Raises \<Longrightarrow>
     loop_body rtr_read (m\<lparr>buffer := drop k bs\<rparr>) = (Continue, m\<lparr>buffer := drop (Suc k) bs\<rparr>)"
  by (simp add: loop_body_def)

lemma loop_body_incomplete:
  "rtr_read (buffer m) = Returns raw_data None \<Longrightarrow> loop_body rtr_read m = (Break, m)"
  by (simp add: loop_body_def)

lemma loop_body_decode_fails:
  "rtr_read (buffer m) = Returns raw_data (Some msg) \<Longrightarrow>
   position_update msg (status m) = None \<Longrightarrow>
     loop_body rtr_read m = (Continue, m\<lparr>buffer := drop 1 (buffer m)\<rparr>)"
  by (simp add: loop_body_def)

lemma loop_body_message:
  "rtr_read (buffer m) = Returns (Some raw) (Some msg) \<Longrightarrow>
   position_update msg (status m) = Some st \<Longrightarrow>
     loop_body rtr_read m =
       (Continue, m\<lparr>status := st, buffer := drop (length raw) (buffer m)\<rparr>)"
  by (simp add: loop_body_def)

text \<open>
  Resynchronisation: while the iteration at each of the first \<open>n\<close> offsets drops one
  byte, the loop reaches offset \<open>n\<close> with everything else as it was.
\<close>

lemma drain_discard:
  assumes "\<forall>k<n. loop_body rtr_read (m\<lparr>buffer := drop k bs\<rparr>)
                    = (Continue, m\<lparr>buffer := drop (Suc k) bs\<rparr>)"
    and "n \<le> length bs"
  shows "drain rtr_read (m\<lparr>buffer := bs\<rparr>) = drain rtr_read (m\<lparr>buffer := drop n bs\<rparr>)"
  using assms
proof (induction n)
  case 0
  then show ?case by simp
next
  case (Suc n)
  have before: "drain rtr_read (m\<lparr>buffer := bs\<rparr>) = drain rtr_read (m\<lparr>buffer := drop n bs\<rparr>)"
    using Suc by simp
  have nonempty: "buffer (m\<lparr>buffer := drop n bs\<rparr>) \<noteq> []"
    using Suc.prems(2) by simp
  have step: "loop_body rtr_read (m\<lparr>buffer := drop n bs\<rparr>)
                = (Continue, m\<lparr>buffer := drop (Suc n) bs\<rparr>)"
    using Suc.prems(1) by simp
  show ?case
    using before drain_continue [OF nonempty step] by simp
qed

text \<open>An iteration touches the buffer and the status only.\<close>

lemma loop_body_frame:
  "loop_body rtr_read m = (c, m') \<Longrightarrow> socket m' = socket m \<and> logger m' = logger m"
  by (auto simp add: loop_body_def split: read_result.splits option.splits)

lemma drain_frame:
  assumes "drain rtr_read m = Some m'"
  shows "socket m' = socket m \<and> logger m' = logger m"
proof (rule drain.raw_induct
    [where P = "\<lambda>rd a b. socket b = socket a \<and> logger b = logger a", OF _ assms])
  fix d :: "(byte list \<Rightarrow> read_result) \<Rightarrow> GnssMonitor \<Rightarrow> GnssMonitor option"
  fix rd :: "byte list \<Rightarrow> read_result"
  fix a b :: GnssMonitor
  assume IH: "\<And>rd' a' b'. d rd' a' = Some b' \<Longrightarrow> socket b' = socket a' \<and> logger b' = logger a'"
  assume unfolded:
    "(if 0 < length (buffer a) then
        (case loop_body rd a of (Continue, m') \<Rightarrow> d rd m' | (Break, m') \<Rightarrow> Some m')
      else Some a) = Some b"
  show "socket b = socket a \<and> logger b = logger a"
  proof (cases "0 < length (buffer a)")
    case False
    with unfolded show ?thesis by simp
  next
    case True
    obtain c a1 where body: "loop_body rd a = (c, a1)"
      by (cases "loop_body rd a")
    show ?thesis
    proof (cases c)
      case Break
      with unfolded True body loop_body_frame [OF body] show ?thesis by simp
    next
      case Continue
      with unfolded True body have "d rd a1 = Some b" by simp
      from IH [OF this] loop_body_frame [OF body] show ?thesis by simp
    qed
  qed
qed

lemma loop_body_shortens:
  assumes "reader_progress rtr_read"
    and "buffer m \<noteq> []"
    and "loop_body rtr_read m = (Continue, m')"
  shows "length (buffer m') < length (buffer m)"
proof (cases "rtr_read (buffer m)")
  case Raises
  with assms(2,3) show ?thesis
    by (auto simp add: loop_body_def)
next
  case (Returns raw_data parsed_data)
  have "raw_data = Some raw \<Longrightarrow> parsed_data = Some msg \<Longrightarrow> raw \<noteq> []" for raw msg
    using assms(1) Returns unfolding reader_progress_def by blast
  with Returns assms(2,3) show ?thesis
    by (auto simp add: loop_body_def split: option.splits)
qed

lemma drain_terminates:
  assumes "reader_progress rtr_read"
  shows "\<exists>m'. drain rtr_read m = Some m'"
proof (induction "length (buffer m)" arbitrary: m rule: less_induct)
  case less
  show ?case
  proof (cases "buffer m = []")
    case True
    then show ?thesis by (simp add: drain_empty)
  next
    case False
    obtain c m1 where body: "loop_body rtr_read m = (c, m1)"
      by (cases "loop_body rtr_read m")
    show ?thesis
    proof (cases c)
      case Break
      with False body show ?thesis by (simp add: drain_break)
    next
      case Continue
      with body have step: "loop_body rtr_read m = (Continue, m1)" by simp
      have "length (buffer m1) < length (buffer m)"
        using assms False step by (rule loop_body_shortens)
      then obtain m' where "drain rtr_read m1 = Some m'"
        using less by blast
      then show ?thesis
        using drain_continue [OF False step] by simp
    qed
  qed
qed

lemma sample_read_progress: "reader_progress sample_read"
  unfolding reader_progress_def
  by (auto simp add: sample_read_def split: list.splits if_splits)

section \<open>The conversion and the rounding\<close>

text \<open>
  A point of the equatorial plane on the positive x axis, outside the circle of radius
  \<open>e2 * a\<close> (about 42.7 km): latitude and longitude are zero and the height is the
  distance to the equatorial radius.
\<close>

lemma ecef_to_geodetic_x_axis:
  assumes "42698 \<le> x"
  shows "ecef_to_geodetic x 0 0 = Some (0, 0, x - 6378137)"
proof -
  have pos: "0 < x"
    using assms by simp
  have p: "math_sqrt (x ^ 2 + 0 ^ 2) = Some x"
    using pos by (simp add: math_sqrt_def)
  have "6378137 * (2 * (1 / 298.257223563) - (1 / 298.257223563) ^ 2) < (42698 :: real)"
    by (simp add: power2_eq_square)
  then have arg: "0 < x - (2 * (1 / 298.257223563) - (1 / 298.257223563) ^ 2) * 6378137 * 1"
    using assms by simp
  show ?thesis
    unfolding ecef_to_geodetic_def Let_def p
    using arg pos
    by (simp add: math_atan2_def math_sqrt_def float_div_def math_degrees_def math_cos_def)
qed

text \<open>\<open>round\<close> returns a multiple of \<open>10 ^ (- ndigits)\<close> at most half a unit away.\<close>

lemma py_round_grid: "py_round x n * 10 ^ n \<in> \<int>"
  by (simp add: py_round_def Let_def)

lemma py_round_nearest: "\<bar>py_round x n - x\<bar> \<le> 1 / (2 * 10 ^ n)"
proof -
  define s where "s = x * 10 ^ n"
  define fl where "fl = \<lfloor>s\<rfloor>"
  define d where "d = s - of_int fl"
  define r :: int where
    "r = (if d < 1 / 2 then fl else if 1 / 2 < d then fl + 1
          else if even fl then fl else fl + 1)"
  have d: "0 \<le> d" "d < 1"
    unfolding d_def fl_def by linarith+
  have r: "\<bar>of_int r - s\<bar> \<le> 1 / 2"
    using d unfolding r_def d_def by auto
  have eq: "py_round x n = of_int r / 10 ^ n"
    by (simp add: py_round_def Let_def r_def d_def fl_def s_def)
  have "py_round x n - x = (of_int r - s) / 10 ^ n"
    by (simp add: eq s_def diff_divide_distrib)
  then have "\<bar>py_round x n - x\<bar> = \<bar>of_int r - s\<bar> / 10 ^ n"
    by (simp add: abs_divide)
  also have "\<dots> \<le> (1 / 2) / 10 ^ n"
    using r by (intro divide_right_mono) simp_all
  finally show ?thesis
    by simp
qed

lemma math_cos_nonzero: "math_cos t \<noteq> 0"
  by (simp add: math_cos_def)

lemma wgs84_e2_bounds: "0 < wgs84_e2" "wgs84_e2 < 1"
  by (simp_all add: wgs84_e2_def wgs84_f_def power2_eq_square)

lemma bowring_radicand_pos: "0 < 1 - wgs84_e2 * (sin t)\<^sup>2"
proof -
  have "(sin t)\<^sup>2 \<le> 1"
    by (simp add: abs_square_le_1)
  then have "wgs84_e2 * (sin t)\<^sup>2 \<le> wgs84_e2 * 1"
    using wgs84_e2_bounds(1) by (intro mult_left_mono) simp_all
  then show ?thesis
    using wgs84_e2_bounds(2) by simp
qed

text \<open>The function as one expression of the specification's quantities.\<close>

lemma ecef_to_geodetic_value:
  "ecef_to_geodetic x y z =
     Some (math_degrees (bowring_lat x y z), math_degrees (bowring_lon x y),
           bowring_p x y / math_cos (bowring_lat x y z) - bowring_N x y z)"
proof -
  have p: "math_sqrt (x\<^sup>2 + y\<^sup>2) = Some (bowring_p x y)"
    by (simp add: math_sqrt_def bowring_p_def not_less)
  have rad: "0 < 1 - wgs84_e2 * (sin (bowring_lat x y z))\<^sup>2"
    by (rule bowring_radicand_pos)
  then have s: "math_sqrt (1 - wgs84_e2 * (sin (bowring_lat x y z))\<^sup>2)
                  = Some (sqrt (1 - wgs84_e2 * (sin (bowring_lat x y z))\<^sup>2))"
    by (simp add: math_sqrt_def)
  have nz: "sqrt (1 - wgs84_e2 * (sin (bowring_lat x y z))\<^sup>2) \<noteq> 0"
    using rad by simp
  have unfolded: "ecef_to_geodetic x y z =
      do {
        p \<leftarrow> math_sqrt (x\<^sup>2 + y\<^sup>2);
        let theta = math_atan2 (z * wgs84_a) (p * wgs84_b);
        let lon = math_atan2 y x;
        let lat = math_atan2 (z + wgs84_ep2 * wgs84_b * sin theta ^ 3)
                             (p - wgs84_e2 * wgs84_a * math_cos theta ^ 3);
        s \<leftarrow> math_sqrt (1 - wgs84_e2 * (sin lat)\<^sup>2);
        N \<leftarrow> float_div wgs84_a s;
        q \<leftarrow> float_div p (math_cos lat);
        let height = q - N;
        Some (math_degrees lat, math_degrees lon, height)
      }"
    unfolding ecef_to_geodetic_def Let_def wgs84_a_def wgs84_f_def wgs84_b_def
      wgs84_e2_def wgs84_ep2_def
    by (rule refl)
  show ?thesis
    unfolding unfolded p
    using s nz math_cos_nonzero [of "bowring_lat x y z"]
    by (simp add: Let_def float_div_def bowring_lat_def bowring_theta_def bowring_lon_def
        bowring_N_def)
qed

text \<open>
  On the polar axis the function returns, as the program does: the longitude is
  zero and the height is \<open>- N\<close>, whatever \<open>z\<close> is.
\<close>

lemma ecef_to_geodetic_polar_axis:
  "ecef_to_geodetic 0 0 z = Some (math_degrees (bowring_lat 0 0 z), 0, - bowring_N 0 0 z)"
  by (simp add: ecef_to_geodetic_value bowring_lon_def bowring_p_def math_atan2_def
      math_degrees_def)

lemma tan_ge_self:
  assumes "0 \<le> t" and "t < pi / 2"
  shows "t \<le> tan t"
proof -
  have deriv: "\<exists>y. DERIV (\<lambda>x. tan x - x) x :> y \<and> 0 \<le> y" if "0 \<le> x" "x \<le> t" for x
  proof -
    have c: "0 < cos x"
      using that assms by (intro cos_gt_zero_pi) auto
    have d: "DERIV (\<lambda>x. tan x - x) x :> inverse ((cos x)\<^sup>2) - 1"
      using c by (auto intro!: derivative_eq_intros)
    have "(cos x)\<^sup>2 \<le> 1"
      by (simp add: abs_square_le_1)
    then have "1 \<le> inverse ((cos x)\<^sup>2)"
      using c by (simp add: one_le_inverse)
    with d show ?thesis
      by (intro exI [of _ "inverse ((cos x)\<^sup>2) - 1"]) simp
  qed
  have "(\<lambda>x. tan x - x) 0 \<le> (\<lambda>x. tan x - x) t"
    using assms(1) deriv by (rule DERIV_nonneg_imp_nondecreasing)
  then show ?thesis by simp
qed

lemma arctan_le_arg:
  assumes "0 \<le> u"
  shows "arctan u \<le> u"
proof -
  have "0 \<le> arctan u" using assms by simp
  from tan_ge_self [OF this arctan_ubound] show ?thesis
    by (simp add: tan_arctan)
qed

text \<open>
  North of the centre on the polar axis the latitude exceeds a right angle by the
  arc tangent of a ratio below \<open>10 ^ (- 48)\<close>.
\<close>

lemma bowring_lat_north_pole:
  assumes "0 < z"
  shows "\<exists>u. 0 < u \<and> u < 1 / 10 ^ 48 \<and> bowring_lat 0 0 z = pi / 2 + arctan u"
proof -
  define eps :: real where "eps = 6123233995736766 / 10 ^ 32"
  define X where "X = wgs84_e2 * wgs84_a * eps ^ 3"
  define Y where "Y = z + wgs84_ep2 * wgs84_b"
  have a: "0 < wgs84_a"
    by (simp add: wgs84_a_def)
  have theta: "bowring_theta 0 0 z = pi / 2"
    using assms a by (simp add: bowring_theta_def bowring_p_def math_atan2_def)
  have ep2b: "42841 < wgs84_ep2 * wgs84_b"
    by (simp add: wgs84_ep2_def wgs84_b_def wgs84_a_def wgs84_f_def power2_eq_square)
  have Xpos: "0 < X"
    unfolding X_def eps_def wgs84_e2_def wgs84_a_def wgs84_f_def
    by (simp add: power2_eq_square)
  have Xsmall: "X < 42841 / 10 ^ 48"
    unfolding X_def eps_def wgs84_e2_def wgs84_a_def wgs84_f_def
    by (simp add: power2_eq_square power3_eq_cube)
  have Ypos: "42841 < Y"
    using assms ep2b by (simp add: Y_def)
  have lat: "bowring_lat 0 0 z = math_atan2 Y (- X)"
    by (simp add: bowring_lat_def theta bowring_p_def math_cos_def X_def Y_def eps_def)
  have "math_atan2 Y (- X) = arctan (Y / (- X)) + pi"
    using Xpos Ypos by (simp add: math_atan2_def)
  also have "arctan (Y / (- X)) = - arctan (1 / (X / Y))"
    by (simp add: arctan_minus)
  also have "arctan (1 / (X / Y)) = pi / 2 - arctan (X / Y)"
    using Xpos Ypos arctan_inverse [of "X / Y"] by (simp add: sgn_if)
  finally have eq: "bowring_lat 0 0 z = pi / 2 + arctan (X / Y)"
    using lat by simp
  have u: "0 < X / Y"
    using Xpos Ypos by simp
  have "X / Y < (42841 / 10 ^ 48) / 42841"
    using Xsmall Ypos Xpos by (intro frac_less) simp_all
  then have "X / Y < 1 / 10 ^ 48"
    by simp
  with u eq show ?thesis by blast
qed

text \<open>
  There the function returns the latitude 90 degrees to within \<open>10 ^ (- 46)\<close>, the
  longitude 0 and a height between \<open>-6399593.63\<close> and \<open>-6399593.62\<close>, whatever the
  distance from the centre: the values the program returns, up to rounding.
\<close>

lemma ecef_to_geodetic_north_pole:
  assumes "0 < z"
  shows "\<exists>lat h. ecef_to_geodetic 0 0 z = Some (lat, 0, h)
           \<and> 90 < lat \<and> lat < 90 + 1 / 10 ^ 46
           \<and> - 6399593.63 < h \<and> h < - 6399593.62"
proof -
  obtain u where u: "0 < u" "u < 1 / 10 ^ 48"
    and lat: "bowring_lat 0 0 z = pi / 2 + arctan u"
    using bowring_lat_north_pole [OF assms] by blast
  have at: "0 < arctan u" "arctan u \<le> u"
    using u arctan_le_arg [of u] by simp_all
  have pi2: "2 \<le> pi"
    by (rule pi_ge_two)
  have deg: "math_degrees (bowring_lat 0 0 z) = 90 + arctan u * (180 / pi)"
    by (simp add: lat math_degrees_def field_simps)
  have "arctan u * (180 / pi) \<le> u * (180 / pi)"
    using at(2) pi2 by (intro mult_right_mono) simp_all
  also have "u * (180 / pi) \<le> u * 90"
    using u(1) pi2 by (intro mult_left_mono) (simp_all add: field_simps)
  also have "u * 90 < (1 / 10 ^ 48) * 90"
    using u(2) by simp
  also have "\<dots> < 1 / 10 ^ 46"
    by simp
  finally have up: "arctan u * (180 / pi) < 1 / 10 ^ 46" .
  have lo: "0 < arctan u * (180 / pi)"
    using at(1) pi2 by simp
  have sinlat: "(sin (bowring_lat 0 0 z))\<^sup>2 = 1 / (1 + u\<^sup>2)"
    by (simp add: lat sin_add cos_arctan power_divide)
  have u2: "u\<^sup>2 < 1 / 10 ^ 96"
  proof -
    have "u\<^sup>2 < (1 / 10 ^ 48)\<^sup>2"
      using u by (intro power_strict_mono) simp_all
    then show ?thesis
      by (simp add: power_divide)
  qed
  have one_plus: "0 < 1 + u\<^sup>2"
    by (simp add: add_pos_nonneg)
  define r where "r = 1 - wgs84_e2 * (1 / (1 + u\<^sup>2))"
  have N: "bowring_N 0 0 z = wgs84_a / sqrt r"
    by (simp add: bowring_N_def sinlat r_def)
  have e2: "0 < wgs84_e2"
    by (rule wgs84_e2_bounds)
  have r_lo: "1 - wgs84_e2 \<le> r"
  proof -
    have "1 / (1 + u\<^sup>2) \<le> 1"
      using one_plus by (simp add: field_simps)
    then have "wgs84_e2 * (1 / (1 + u\<^sup>2)) \<le> wgs84_e2 * 1"
      using e2 by (intro mult_left_mono) simp_all
    then show ?thesis
      by (simp add: r_def)
  qed
  have r_hi: "r < 1 - wgs84_e2 * (1 / (1 + 1 / 10 ^ 96))"
  proof -
    have "1 / (1 + 1 / 10 ^ 96) < 1 / (1 + u\<^sup>2)"
      using u2 one_plus by (intro divide_strict_left_mono) simp_all
    then have "wgs84_e2 * (1 / (1 + 1 / 10 ^ 96)) < wgs84_e2 * (1 / (1 + u\<^sup>2))"
      using e2 by (intro mult_strict_left_mono)
    then show ?thesis
      by (simp add: r_def)
  qed
  have lo_sq: "(wgs84_a / 6399593.63)\<^sup>2 < 1 - wgs84_e2"
    by (simp add: wgs84_a_def wgs84_e2_def wgs84_f_def power2_eq_square)
  have hi_sq: "1 - wgs84_e2 * (1 / (1 + 1 / 10 ^ 96)) < (wgs84_a / 6399593.62)\<^sup>2"
    by (simp add: wgs84_a_def wgs84_e2_def wgs84_f_def power2_eq_square)
  have rpos: "0 < r"
    using lo_sq r_lo zero_le_power2 [of "wgs84_a / 6399593.63"] by linarith
  have s_lo: "wgs84_a / 6399593.63 < sqrt r"
    using lo_sq r_lo by (intro real_less_rsqrt) simp
  have s_hi: "sqrt r < wgs84_a / 6399593.62"
    using hi_sq r_hi by (intro real_less_lsqrt) (simp_all add: wgs84_a_def)
  have spos: "0 < sqrt r"
    using rpos by simp
  have N_hi: "bowring_N 0 0 z < 6399593.63"
  proof -
    have "wgs84_a < 6399593.63 * sqrt r"
      using s_lo by (simp add: field_simps)
    then show ?thesis
      using spos by (simp add: N field_simps)
  qed
  have N_lo: "6399593.62 < bowring_N 0 0 z"
  proof -
    have "6399593.62 * sqrt r < wgs84_a"
      using s_hi by (simp add: field_simps)
    then show ?thesis
      using spos by (simp add: N field_simps)
  qed
  show ?thesis
    using ecef_to_geodetic_polar_axis [of z] deg lo up N_lo N_hi
    by (intro exI [of _ "math_degrees (bowring_lat 0 0 z)"] exI [of _ "- bowring_N 0 0 z"])
      simp
qed


text \<open>The position frame of the sample reader used below: 6400 km out on the x axis.\<close>

lemma sample_read_position:
  "sample_read ([0xD3, 4, 5, 64, 0, 0, 69] @ []) =
     Returns (Some [0xD3, 4, 5, 64, 0, 0, 69])
       (Some \<lparr>identity = ''1005'', DF025 = Some 6400000, DF026 = Some 0, DF027 = Some 0\<rparr>)"
  by (simp add: sample_read_def sample_parse_def sample_coord_def)

lemma position_update_sample:
  "position_update
     \<lparr>identity = ''1005'', DF025 = Some 6400000, DF026 = Some 0, DF027 = Some 0\<rparr> st
     = Some (st\<lparr>latitude := 0, longitude := 0, altitude := 21863\<rparr>)"
  by (simp add: position_update_def ecef_to_geodetic_x_axis py_round_def)

section \<open>The frame parser on concrete frames\<close>

lemma decimal_1005: "decimal 1005 = ''1005''"
  by code_simp

lemmas rtcm3_eval =
  rtcm3_read_def parse_frame_def rtcm3_def payload_length_def rtcm3_checksum_def crc24q_def
  crc24q_octet_def crc24q_shift_def rtcm3_decode_def rtcm3_coordinate_def bit_field_def
  signed_field_def payload_value_def decimal_1005 Let_def

lemma rtcm3_read_position_frame:
  "rtcm3_read position_frame =
     Returns (Some position_frame)
       (Some \<lparr>identity = ''1005'', DF025 = Some 6400000, DF026 = Some 0, DF027 = Some 0\<rparr>)"
  unfolding position_frame_def by (simp add: rtcm3_eval)

lemma rtcm3_read_short_position_frame:
  "rtcm3_read (short_position_frame @ position_frame) =
     Returns (Some short_position_frame)
       (Some \<lparr>identity = ''1005'', DF025 = None, DF026 = None, DF027 = None\<rparr>)"
  unfolding position_frame_def short_position_frame_def by (simp add: rtcm3_eval)

lemma rtcm3_read_bad_preamble: "b \<noteq> 0xD3 \<Longrightarrow> rtcm3_read (b # bs) = Raises"
  by (simp add: rtcm3_read_def parse_frame_def rtcm3_def)

lemma rtcm3_read_long_length:
  "length bs < 1026 \<Longrightarrow> rtcm3_read (0xD3 # 0x03 # 0xFF # bs) = Returns None None"
  by (simp add: rtcm3_read_def parse_frame_def rtcm3_def payload_length_def)

lemma drain_position_frame:
  "drain rtcm3_read (GnssMonitor_init\<lparr>buffer := position_frame\<rparr>)
     = Some (GnssMonitor_init
               \<lparr>status := BaseStationStatus_init\<lparr>latitude := 0, longitude := 0, altitude := 21863\<rparr>,
                buffer := []\<rparr>)"
proof -
  let ?m = "GnssMonitor_init\<lparr>buffer := position_frame\<rparr>"
  let ?pos = "\<lparr>identity = ''1005'', DF025 = Some 6400000, DF026 = Some 0, DF027 = Some 0\<rparr>"
  have nonempty: "buffer ?m \<noteq> []"
    by (simp add: position_frame_def)
  have rd: "rtcm3_read (buffer ?m) = Returns (Some position_frame) (Some ?pos)"
    by (simp add: rtcm3_read_position_frame)
  have upd: "position_update ?pos (status ?m)
               = Some ((status ?m)\<lparr>latitude := 0, longitude := 0, altitude := 21863\<rparr>)"
    by (rule position_update_sample)
  have "loop_body rtcm3_read ?m
      = (Continue, ?m\<lparr>status := (status ?m)\<lparr>latitude := 0, longitude := 0, altitude := 21863\<rparr>,
                       buffer := drop (length position_frame) (buffer ?m)\<rparr>)"
    using rd upd by (rule loop_body_message [of rtcm3_read ?m])
  from drain_continue [OF nonempty this] show ?thesis
    by (simp add: drain_empty GnssMonitor_init_def)
qed

section \<open>Claims about the framer\<close>

text \<open>
  C2, as the specification states it, fails: the garbage is not arbitrary. Three
  garbage bytes that look like the header of a long frame (the preamble and the
  length 1023) stand before the complete, checksum-valid position frame. The parser
  reports that the message at offset 0 is not complete yet, the loop stops, and the
  cycle ends with the buffer as it was: none of the three bytes is discarded and the
  valid frame is not extracted.
\<close>

theorem resync_arbitrary_garbage_counterexample:
  "rtcm3_read position_frame
     = Returns (Some position_frame)
         (Some \<lparr>identity = ''1005'', DF025 = Some 6400000, DF026 = Some 0, DF027 = Some 0\<rparr>)
   \<and> drain rtcm3_read (GnssMonitor_init\<lparr>buffer := [0xD3, 0x03, 0xFF] @ position_frame\<rparr>)
     = Some (GnssMonitor_init\<lparr>buffer := [0xD3, 0x03, 0xFF] @ position_frame\<rparr>)"
proof -
  let ?m = "GnssMonitor_init\<lparr>buffer := [0xD3, 0x03, 0xFF] @ position_frame\<rparr>"
  have nonempty: "buffer ?m \<noteq> []"
    by simp
  have "length position_frame < 1026"
    by (simp add: position_frame_def)
  then have "rtcm3_read (buffer ?m) = Returns None None"
    by (simp add: rtcm3_read_long_length)
  then have "loop_body rtcm3_read ?m = (Break, ?m)"
    by (rule loop_body_incomplete)
  with nonempty have "drain rtcm3_read ?m = Some ?m"
    by (rule drain_break)
  with rtcm3_read_position_frame show ?thesis
    by simp
qed

text \<open>
  C2, amended. Resynchronisation progress, for garbage at each of whose offsets the
  parse fails: the buffer is \<open>n\<close> bytes at each of whose \<open>n\<close> offsets the reader
  raises, followed by one complete message \<open>msg\<close>, on which the reader returns \<open>msg\<close>
  itself as \<open>raw_data\<close> with a parsed message whose processing succeeds. Then each of
  the first \<open>n\<close> iterations removes exactly one byte and changes nothing else, the
  next iteration removes exactly the \<open>length msg\<close> bytes of the message, and the loop
  terminates with an empty buffer.
\<close>

theorem resync_discards_garbage:
  assumes garbage: "\<forall>k<length garbage. rtr_read (drop k (garbage @ msg)) = Raises"
    and complete: "rtr_read msg = Returns (Some msg) (Some parsed)"
    and processed: "position_update parsed (status m) = Some st"
    and nonempty: "msg \<noteq> []"
  shows "(\<forall>k<length garbage.
            loop_body rtr_read (m\<lparr>buffer := drop k (garbage @ msg)\<rparr>)
              = (Continue, m\<lparr>buffer := drop (Suc k) (garbage @ msg)\<rparr>))
       \<and> loop_body rtr_read (m\<lparr>buffer := drop (length garbage) (garbage @ msg)\<rparr>)
              = (Continue, m\<lparr>status := st, buffer := []\<rparr>)
       \<and> drain rtr_read (m\<lparr>buffer := garbage @ msg\<rparr>) = Some (m\<lparr>status := st, buffer := []\<rparr>)"
proof -
  have discard: "\<forall>k<length garbage.
      loop_body rtr_read (m\<lparr>buffer := drop k (garbage @ msg)\<rparr>)
        = (Continue, m\<lparr>buffer := drop (Suc k) (garbage @ msg)\<rparr>)"
  proof (intro allI impI)
    fix k assume "k < length garbage"
    then have "rtr_read (drop k (garbage @ msg)) = Raises"
      using garbage by blast
    then show "loop_body rtr_read (m\<lparr>buffer := drop k (garbage @ msg)\<rparr>)
            = (Continue, m\<lparr>buffer := drop (Suc k) (garbage @ msg)\<rparr>)"
      by (rule loop_body_raises_at)
  qed
  have consume: "loop_body rtr_read (m\<lparr>buffer := msg\<rparr>)
                   = (Continue, m\<lparr>status := st, buffer := []\<rparr>)"
    using loop_body_message [of rtr_read "m\<lparr>buffer := msg\<rparr>" msg parsed st]
      complete processed by simp
  have "drain rtr_read (m\<lparr>buffer := garbage @ msg\<rparr>)
          = drain rtr_read (m\<lparr>buffer := drop (length garbage) (garbage @ msg)\<rparr>)"
    by (rule drain_discard [OF discard]) simp
  also have "\<dots> = drain rtr_read (m\<lparr>buffer := msg\<rparr>)"
    by simp
  also have "\<dots> = drain rtr_read (m\<lparr>status := st, buffer := []\<rparr>)"
    using drain_continue [OF _ consume] nonempty by simp
  also have "\<dots> = Some (m\<lparr>status := st, buffer := []\<rparr>)"
    by (simp add: drain_empty)
  finally show ?thesis
    using discard consume by simp
qed

text \<open>
  Two garbage bytes, then a four-byte frame of a type other than the station
  position, read by the sample reader from a fresh monitor.
\<close>

theorem resync_discards_garbage_witness:
  "loop_body sample_read (GnssMonitor_init\<lparr>buffer := [0, 1, 0xD3, 1, 7, 7]\<rparr>)
     = (Continue, GnssMonitor_init\<lparr>buffer := [1, 0xD3, 1, 7, 7]\<rparr>)
   \<and> loop_body sample_read (GnssMonitor_init\<lparr>buffer := [1, 0xD3, 1, 7, 7]\<rparr>)
     = (Continue, GnssMonitor_init\<lparr>buffer := [0xD3, 1, 7, 7]\<rparr>)
   \<and> loop_body sample_read (GnssMonitor_init\<lparr>buffer := [0xD3, 1, 7, 7]\<rparr>)
     = (Continue, GnssMonitor_init\<lparr>buffer := []\<rparr>)
   \<and> drain sample_read (GnssMonitor_init\<lparr>buffer := [0, 1, 0xD3, 1, 7, 7]\<rparr>)
     = Some (GnssMonitor_init\<lparr>buffer := []\<rparr>)"
proof -
  let ?parsed = "\<lparr>identity = ''1077'', DF025 = None, DF026 = None, DF027 = None\<rparr>"
  have garbage: "\<forall>k<length [0, 1 :: byte].
                   sample_read (drop k ([0, 1] @ [0xD3, 1, 7, 7])) = Raises"
    by (simp add: sample_read_def less_Suc_eq)
  have complete: "sample_read [0xD3, 1, 7, 7] = Returns (Some [0xD3, 1, 7, 7]) (Some ?parsed)"
    by (simp add: sample_read_def sample_parse_def)
  have processed: "position_update ?parsed (status GnssMonitor_init)
                     = Some (status GnssMonitor_init)"
    by (simp add: position_update_def)
  have nonempty: "[0xD3, 1, 7, 7 :: byte] \<noteq> []"
    by simp
  from resync_discards_garbage [OF garbage complete processed nonempty]
  show ?thesis
    by (simp add: less_Suc_eq)
qed

text \<open>
  C3. Partial message stability. When the reader reports that the buffer holds no
  complete message yet (it returns no parsed data), the iteration breaks out of the
  loop and the loop returns the monitor as it was: no byte is consumed and no field of
  the status changes. A later cycle that receives no bytes changes nothing either.
\<close>

theorem partial_message_stability:
  assumes "buffer m \<noteq> []"
    and "rtr_read (buffer m) = Returns raw_data None"
    and "socket m \<noteq> None"
  shows "loop_body rtr_read m = (Break, m)
       \<and> drain rtr_read m = Some m
       \<and> update_status rtr_read connect_ok (RecvData []) m = Some (Some (status m), m)"
proof -
  have break: "loop_body rtr_read m = (Break, m)"
    using assms(2) by (rule loop_body_incomplete)
  have "drain rtr_read m = Some m"
    using assms(1) break by (rule drain_break)
  moreover have "update_status rtr_read connect_ok (RecvData []) m = Some (Some (status m), m)"
    using assms(3) by (auto simp add: update_status_def)
  ultimately show ?thesis
    using break by simp
qed

text \<open>The first four bytes of a seven-byte position frame.\<close>

theorem partial_message_stability_witness:
  "drain sample_read (GnssMonitor_init\<lparr>socket := Some Socket, buffer := [0xD3, 4, 5, 64]\<rparr>)
     = Some (GnssMonitor_init\<lparr>socket := Some Socket, buffer := [0xD3, 4, 5, 64]\<rparr>)
   \<and> update_status sample_read False (RecvData [])
        (GnssMonitor_init\<lparr>socket := Some Socket, buffer := [0xD3, 4, 5, 64]\<rparr>)
     = Some (Some BaseStationStatus_init,
             GnssMonitor_init\<lparr>socket := Some Socket, buffer := [0xD3, 4, 5, 64]\<rparr>)"
proof -
  let ?m = "GnssMonitor_init\<lparr>socket := Some Socket, buffer := [0xD3, 4, 5, 64]\<rparr>"
  have "buffer ?m \<noteq> []"
    by simp
  moreover have "sample_read (buffer ?m) = Returns None None"
    by (simp add: sample_read_def)
  moreover have "socket ?m \<noteq> None"
    by simp
  ultimately show ?thesis
    using partial_message_stability [of ?m sample_read None False]
    by (simp add: GnssMonitor_init_def)
qed

text \<open>
  C5. Type filtering. When the reader returns a complete message whose identity is
  not \<open>1005\<close>, with the front \<open>raw\<close> of the buffer as its bytes, the iteration removes
  exactly those bytes, continues the loop on the rest and leaves the status, the
  socket and the log as they were: nothing is raised and nothing is logged.
\<close>

theorem type_filtering:
  assumes "rtr_read (raw @ rest) = Returns (Some raw) (Some msg)"
    and "identity msg \<noteq> ''1005''"
  shows "loop_body rtr_read (m\<lparr>buffer := raw @ rest\<rparr>) = (Continue, m\<lparr>buffer := rest\<rparr>)
       \<and> drain rtr_read (m\<lparr>buffer := raw @ rest\<rparr>) = drain rtr_read (m\<lparr>buffer := rest\<rparr>)
       \<and> drain rtr_read (m\<lparr>buffer := []\<rparr>) = Some (m\<lparr>buffer := []\<rparr>)"
proof -
  have same: "position_update msg (status (m\<lparr>buffer := raw @ rest\<rparr>)) = Some (status m)"
    using assms(2) by (simp add: position_update_def)
  have step: "loop_body rtr_read (m\<lparr>buffer := raw @ rest\<rparr>) = (Continue, m\<lparr>buffer := rest\<rparr>)"
    using loop_body_message [of rtr_read "m\<lparr>buffer := raw @ rest\<rparr>" raw msg "status m"]
      assms(1) same by simp
  have "drain rtr_read (m\<lparr>buffer := raw @ rest\<rparr>) = drain rtr_read (m\<lparr>buffer := rest\<rparr>)"
  proof (cases "raw @ rest = []")
    case True
    then show ?thesis by simp
  next
    case False
    then show ?thesis
      using drain_continue [OF _ step] by simp
  qed
  then show ?thesis
    using step by (simp add: drain_empty)
qed

text \<open>A frame of another type alone in the buffer of a fresh monitor.\<close>

theorem type_filtering_witness:
  "loop_body sample_read (GnssMonitor_init\<lparr>buffer := [0xD3, 1, 7, 7]\<rparr>)
     = (Continue, GnssMonitor_init\<lparr>buffer := []\<rparr>)
   \<and> drain sample_read (GnssMonitor_init\<lparr>buffer := [0xD3, 1, 7, 7]\<rparr>)
     = Some (GnssMonitor_init\<lparr>buffer := []\<rparr>)"
proof -
  let ?msg = "\<lparr>identity = ''1077'', DF025 = None, DF026 = None, DF027 = None\<rparr>"
  have "sample_read ([0xD3, 1, 7, 7] @ []) = Returns (Some [0xD3, 1, 7, 7]) (Some ?msg)"
    by (simp add: sample_read_def sample_parse_def)
  moreover have "identity ?msg \<noteq> ''1005''"
    by simp
  ultimately show ?thesis
    using type_filtering [of sample_read "[0xD3, 1, 7, 7]" "[]" ?msg GnssMonitor_init]
    by simp
qed

text \<open>
  C7. Rounding on write-through. When the reader returns a message of identity
  \<open>1005\<close> whose three coordinates can be read and converted, the iteration writes to the
  status exactly the converted latitude and longitude rounded to 8 decimal places and
  the converted height rounded to 2 decimal places, and no other field: each written
  value is a multiple of \<open>10 ^ (- 8)\<close> (of \<open>10 ^ (- 2)\<close> for the altitude) at most half
  a unit from the converted value.
\<close>

theorem position_written_rounded:
  assumes "rtr_read (buffer m) = Returns raw_data (Some msg)"
    and "identity msg = ''1005''"
    and "DF025 msg = Some x" and "DF026 msg = Some y" and "DF027 msg = Some z"
    and "ecef_to_geodetic x y z = Some (lat, lon, height)"
  shows "(let st = status (snd (loop_body rtr_read m)) in
           st = (status m)\<lparr>latitude := py_round lat 8,
                            longitude := py_round lon 8,
                            altitude := py_round height 2\<rparr>
         \<and> latitude st * 10 ^ 8 \<in> \<int> \<and> \<bar>latitude st - lat\<bar> \<le> 1 / (2 * 10 ^ 8)
         \<and> longitude st * 10 ^ 8 \<in> \<int> \<and> \<bar>longitude st - lon\<bar> \<le> 1 / (2 * 10 ^ 8)
         \<and> altitude st * 10 ^ 2 \<in> \<int> \<and> \<bar>altitude st - height\<bar> \<le> 1 / (2 * 10 ^ 2))"
proof -
  let ?st = "(status m)\<lparr>latitude := py_round lat 8, longitude := py_round lon 8,
                          altitude := py_round height 2\<rparr>"
  have upd: "position_update msg (status m) = Some ?st"
    using assms(2-6) by (simp add: position_update_def)
  have "status (snd (loop_body rtr_read m)) = ?st"
    using assms(1) upd by (cases raw_data) (simp_all add: loop_body_def)
  then show ?thesis
    using py_round_grid [of lat 8] py_round_nearest [of lat 8]
      py_round_grid [of lon 8] py_round_nearest [of lon 8]
      py_round_grid [of height 2] py_round_nearest [of height 2]
    by (simp add: Let_def)
qed

text \<open>The position frame of the sample reader, 6400 km out on the x axis.\<close>

theorem position_written_rounded_witness:
  "status (snd (loop_body sample_read (GnssMonitor_init\<lparr>buffer := [0xD3, 4, 5, 64, 0, 0, 69]\<rparr>)))
     = BaseStationStatus_init\<lparr>latitude := 0, longitude := 0, altitude := 21863\<rparr>"
proof -
  let ?m = "GnssMonitor_init\<lparr>buffer := [0xD3, 4, 5, 64, 0, 0, 69]\<rparr>"
  let ?msg = "\<lparr>identity = ''1005'', DF025 = Some 6400000, DF026 = Some 0, DF027 = Some 0\<rparr>"
  have read: "sample_read (buffer ?m) = Returns (Some [0xD3, 4, 5, 64, 0, 0, 69]) (Some ?msg)"
    using sample_read_position by simp
  have conv: "ecef_to_geodetic 6400000 0 0 = Some (0, 0, 21863)"
    using ecef_to_geodetic_x_axis [of 6400000] by simp
  have r8: "py_round 0 8 = 0" and r2: "py_round 21863 2 = 21863"
    by (simp_all add: py_round_def)
  from position_written_rounded [of sample_read ?m _ ?msg 6400000 0 0 0 0 21863, OF read _ _ _ _ conv]
  show ?thesis
    by (simp add: Let_def r8 r2 GnssMonitor_init_def)
qed

text \<open>
  C4, as the specification states it, fails. The buffer holds
  \<open>short_position_frame\<close>, a checksum-valid frame of message 1005 that has no
  coordinates, followed by the complete, valid \<open>position_frame\<close>. Processing the first
  frame fails and one byte is dropped; the parse at each of the next four offsets
  raises (bad preamble) and drops one byte; at offset 5 the parser finds the
  preamble and the length 1023 inside the old payload and reports an incomplete
  message. The loop stops with six bytes of the failed frame and the whole valid
  frame still in the buffer, and the status unchanged, although the valid frame
  alone in the buffer is decoded.
\<close>

theorem decode_failure_isolated_counterexample:
  "rtcm3_read (short_position_frame @ position_frame)
     = Returns (Some short_position_frame)
         (Some \<lparr>identity = ''1005'', DF025 = None, DF026 = None, DF027 = None\<rparr>)
   \<and> drain rtcm3_read (GnssMonitor_init\<lparr>buffer := position_frame\<rparr>)
     = Some (GnssMonitor_init
               \<lparr>status := BaseStationStatus_init\<lparr>latitude := 0, longitude := 0, altitude := 21863\<rparr>,
                buffer := []\<rparr>)
   \<and> drain rtcm3_read (GnssMonitor_init\<lparr>buffer := short_position_frame @ position_frame\<rparr>)
     = Some (GnssMonitor_init
               \<lparr>buffer := [0xD3, 0x03, 0xFF, 0xA8, 0x90, 0x8C] @ position_frame\<rparr>)"
proof -
  let ?bad = "\<lparr>identity = ''1005'', DF025 = None, DF026 = None, DF027 = None\<rparr>"
  let ?m = "GnssMonitor_init"
  have fails: "position_update ?bad (status ?m) = None"
    by (simp add: position_update_def)
  have step0: "loop_body rtcm3_read (?m\<lparr>buffer := short_position_frame @ position_frame\<rparr>)
      = (Continue, ?m\<lparr>buffer := [0x00, 0x05, 0x3E, 0xD0, 0xD3, 0x03, 0xFF, 0xA8, 0x90, 0x8C]
                                    @ position_frame\<rparr>)"
    using loop_body_decode_fails
      [of rtcm3_read "?m\<lparr>buffer := short_position_frame @ position_frame\<rparr>" _ ?bad]
      rtcm3_read_short_position_frame fails
    by (simp add: short_position_frame_def)
  have step1: "loop_body rtcm3_read
        (?m\<lparr>buffer := [0x00, 0x05, 0x3E, 0xD0, 0xD3, 0x03, 0xFF, 0xA8, 0x90, 0x8C] @ position_frame\<rparr>)
      = (Continue, ?m\<lparr>buffer := [0x05, 0x3E, 0xD0, 0xD3, 0x03, 0xFF, 0xA8, 0x90, 0x8C]
                                    @ position_frame\<rparr>)"
    by (simp add: loop_body_def rtcm3_read_bad_preamble)
  have step2: "loop_body rtcm3_read
        (?m\<lparr>buffer := [0x05, 0x3E, 0xD0, 0xD3, 0x03, 0xFF, 0xA8, 0x90, 0x8C] @ position_frame\<rparr>)
      = (Continue, ?m\<lparr>buffer := [0x3E, 0xD0, 0xD3, 0x03, 0xFF, 0xA8, 0x90, 0x8C]
                                    @ position_frame\<rparr>)"
    by (simp add: loop_body_def rtcm3_read_bad_preamble)
  have step3: "loop_body rtcm3_read
        (?m\<lparr>buffer := [0x3E, 0xD0, 0xD3, 0x03, 0xFF, 0xA8, 0x90, 0x8C] @ position_frame\<rparr>)
      = (Continue, ?m\<lparr>buffer := [0xD0, 0xD3, 0x03, 0xFF, 0xA8, 0x90, 0x8C] @ position_frame\<rparr>)"
    by (simp add: loop_body_def rtcm3_read_bad_preamble)
  have step4: "loop_body rtcm3_read
        (?m\<lparr>buffer := [0xD0, 0xD3, 0x03, 0xFF, 0xA8, 0x90, 0x8C] @ position_frame\<rparr>)
      = (Continue, ?m\<lparr>buffer := [0xD3, 0x03, 0xFF, 0xA8, 0x90, 0x8C] @ position_frame\<rparr>)"
    by (simp add: loop_body_def rtcm3_read_bad_preamble)
  have "length ([0xA8, 0x90, 0x8C] @ position_frame) < 1026"
    by (simp add: position_frame_def)
  then have "rtcm3_read (0xD3 # 0x03 # 0xFF # [0xA8, 0x90, 0x8C] @ position_frame)
               = Returns None None"
    by (rule rtcm3_read_long_length)
  then have step5: "loop_body rtcm3_read
        (?m\<lparr>buffer := [0xD3, 0x03, 0xFF, 0xA8, 0x90, 0x8C] @ position_frame\<rparr>)
      = (Break, ?m\<lparr>buffer := [0xD3, 0x03, 0xFF, 0xA8, 0x90, 0x8C] @ position_frame\<rparr>)"
    by (simp add: loop_body_def)
  have "drain rtcm3_read (?m\<lparr>buffer := short_position_frame @ position_frame\<rparr>)
      = Some (?m\<lparr>buffer := [0xD3, 0x03, 0xFF, 0xA8, 0x90, 0x8C] @ position_frame\<rparr>)"
    using drain_continue [OF _ step0] drain_continue [OF _ step1] drain_continue [OF _ step2]
      drain_continue [OF _ step3] drain_continue [OF _ step4] drain_break [OF _ step5]
    by (simp add: short_position_frame_def)
  with rtcm3_read_short_position_frame drain_position_frame show ?thesis
    by simp
qed

text \<open>
  C4, amended. A message whose decoding fails is handled as a framing error is: the
  cycle is not aborted, and the iteration leaves the status as it was, drops exactly
  one byte and continues the loop. If the reader raises at every later offset inside
  the failed message, then the message is dropped byte by byte and the loop goes on,
  in the same cycle, with the bytes that follow it untouched; a complete message
  there is then processed and exactly its bytes are consumed. Nothing is promised
  when the reader does not raise at one of those offsets.
\<close>

theorem decode_failure_resync:
  assumes failed: "rtr_read (bad @ rest) = Returns raw_data (Some msg)"
    and decode: "position_update msg (status m) = None"
    and nonempty: "bad \<noteq> []"
    and inside: "\<forall>k. 0 < k \<and> k < length bad \<longrightarrow> rtr_read (drop k (bad @ rest)) = Raises"
    and following: "rtr_read rest = Returns (Some raw) (Some next_msg)"
    and processed: "position_update next_msg (status m) = Some st"
  shows "loop_body rtr_read (m\<lparr>buffer := bad @ rest\<rparr>)
           = (Continue, m\<lparr>buffer := drop 1 (bad @ rest)\<rparr>)
       \<and> drain rtr_read (m\<lparr>buffer := bad @ rest\<rparr>) = drain rtr_read (m\<lparr>buffer := rest\<rparr>)
       \<and> loop_body rtr_read (m\<lparr>buffer := rest\<rparr>)
           = (Continue, m\<lparr>status := st, buffer := drop (length raw) rest\<rparr>)"
proof -
  have first: "loop_body rtr_read (m\<lparr>buffer := bad @ rest\<rparr>)
                 = (Continue, m\<lparr>buffer := drop 1 (bad @ rest)\<rparr>)"
    using loop_body_decode_fails [of rtr_read "m\<lparr>buffer := bad @ rest\<rparr>" raw_data msg]
      failed decode by simp
  have each: "\<forall>k<length bad.
      loop_body rtr_read (m\<lparr>buffer := drop k (bad @ rest)\<rparr>)
        = (Continue, m\<lparr>buffer := drop (Suc k) (bad @ rest)\<rparr>)"
  proof (intro allI impI)
    fix k assume k: "k < length bad"
    show "loop_body rtr_read (m\<lparr>buffer := drop k (bad @ rest)\<rparr>)
            = (Continue, m\<lparr>buffer := drop (Suc k) (bad @ rest)\<rparr>)"
    proof (cases "k = 0")
      case True
      with first show ?thesis by simp
    next
      case False
      with k inside have "rtr_read (drop k (bad @ rest)) = Raises"
        by simp
      then show ?thesis
        by (rule loop_body_raises_at)
    qed
  qed
  have "drain rtr_read (m\<lparr>buffer := bad @ rest\<rparr>)
          = drain rtr_read (m\<lparr>buffer := drop (length bad) (bad @ rest)\<rparr>)"
    by (rule drain_discard [OF each]) simp
  then have skip: "drain rtr_read (m\<lparr>buffer := bad @ rest\<rparr>) = drain rtr_read (m\<lparr>buffer := rest\<rparr>)"
    by simp
  have after: "loop_body rtr_read (m\<lparr>buffer := rest\<rparr>)
                 = (Continue, m\<lparr>status := st, buffer := drop (length raw) rest\<rparr>)"
    using loop_body_message [of rtr_read "m\<lparr>buffer := rest\<rparr>" raw next_msg st]
      following processed by simp
  from first skip after show ?thesis by simp
qed

text \<open>
  A position frame with one coordinate instead of three, then the valid position
  frame: the five bytes of the first are dropped one at a time and the second is
  decoded in the same run of the loop.
\<close>

theorem decode_failure_resync_witness:
  "loop_body sample_read
       (GnssMonitor_init\<lparr>buffer := [0xD3, 2, 5, 1, 6] @ [0xD3, 4, 5, 64, 0, 0, 69]\<rparr>)
     = (Continue, GnssMonitor_init\<lparr>buffer := [2, 5, 1, 6, 0xD3, 4, 5, 64, 0, 0, 69]\<rparr>)
   \<and> drain sample_read
       (GnssMonitor_init\<lparr>buffer := [0xD3, 2, 5, 1, 6] @ [0xD3, 4, 5, 64, 0, 0, 69]\<rparr>)
     = Some (GnssMonitor_init
               \<lparr>status := BaseStationStatus_init\<lparr>latitude := 0, longitude := 0, altitude := 21863\<rparr>,
                buffer := []\<rparr>)"
proof -
  let ?bad = "\<lparr>identity = ''1005'', DF025 = None, DF026 = None, DF027 = None\<rparr>"
  let ?pos = "\<lparr>identity = ''1005'', DF025 = Some 6400000, DF026 = Some 0, DF027 = Some 0\<rparr>"
  let ?st = "(status GnssMonitor_init)\<lparr>latitude := 0, longitude := 0, altitude := 21863\<rparr>"
  have failed: "sample_read ([0xD3, 2, 5, 1, 6] @ [0xD3, 4, 5, 64, 0, 0, 69])
                  = Returns (Some [0xD3, 2, 5, 1, 6]) (Some ?bad)"
    by (simp add: sample_read_def sample_parse_def)
  have decode: "position_update ?bad (status GnssMonitor_init) = None"
    by (simp add: position_update_def)
  have nonempty: "[0xD3, 2, 5, 1, 6 :: byte] \<noteq> []"
    by simp
  have inside: "\<forall>k. 0 < k \<and> k < length [0xD3, 2, 5, 1, 6 :: byte] \<longrightarrow>
      sample_read (drop k ([0xD3, 2, 5, 1, 6] @ [0xD3, 4, 5, 64, 0, 0, 69])) = Raises"
    by (auto simp add: sample_read_def less_Suc_eq)
  have following: "sample_read [0xD3, 4, 5, 64, 0, 0, 69]
                     = Returns (Some [0xD3, 4, 5, 64, 0, 0, 69]) (Some ?pos)"
    using sample_read_position by simp
  have processed: "position_update ?pos (status GnssMonitor_init) = Some ?st"
    by (rule position_update_sample)
  from decode_failure_resync [OF failed decode nonempty inside following processed]
  have steps: "loop_body sample_read
         (GnssMonitor_init\<lparr>buffer := [0xD3, 2, 5, 1, 6] @ [0xD3, 4, 5, 64, 0, 0, 69]\<rparr>)
       = (Continue, GnssMonitor_init\<lparr>buffer := [2, 5, 1, 6, 0xD3, 4, 5, 64, 0, 0, 69]\<rparr>)"
    and skip: "drain sample_read
         (GnssMonitor_init\<lparr>buffer := [0xD3, 2, 5, 1, 6] @ [0xD3, 4, 5, 64, 0, 0, 69]\<rparr>)
       = drain sample_read (GnssMonitor_init\<lparr>buffer := [0xD3, 4, 5, 64, 0, 0, 69]\<rparr>)"
    and after: "loop_body sample_read (GnssMonitor_init\<lparr>buffer := [0xD3, 4, 5, 64, 0, 0, 69]\<rparr>)
       = (Continue, GnssMonitor_init\<lparr>status := ?st, buffer := []\<rparr>)"
    by simp_all
  have "drain sample_read (GnssMonitor_init\<lparr>buffer := [0xD3, 4, 5, 64, 0, 0, 69]\<rparr>)
          = Some (GnssMonitor_init\<lparr>status := ?st, buffer := []\<rparr>)"
    using drain_continue [OF _ after] by (simp add: drain_empty)
  with steps skip show ?thesis
    by (simp add: GnssMonitor_init_def)
qed

section \<open>Claims about the connection and the call\<close>

text \<open>
  C8. The connection handle. A read error on a live connection, and a read error right
  after a successful connect, leave the handle disconnected and return \<open>None\<close>; a
  failed connect leaves it disconnected and returns \<open>None\<close>. A call that returns
  takes the handle from disconnected to connected only when the connect succeeded
  (and the read did not raise), and from connected to disconnected only when the read
  raised; a call that starts disconnected always attempts a connection, which the log
  records. So after a read failure the next call reconnects by itself.
\<close>

theorem connection_state_machine:
  "(socket m \<noteq> None \<longrightarrow>
      update_status rtr_read connect_ok RecvRaises m
        = Some (None, m\<lparr>socket := None, logger := logger m @ [Error_read]\<rparr>))
   \<and> (socket m = None \<longrightarrow>
      update_status rtr_read True RecvRaises m
        = Some (None, m\<lparr>socket := None, logger := logger m @ [Info_connected, Error_read]\<rparr>))
   \<and> (socket m = None \<longrightarrow>
      update_status rtr_read False recv m
        = Some (None, m\<lparr>socket := None, logger := logger m @ [Error_connect]\<rparr>))
   \<and> (socket m = None \<longrightarrow>
      update_status rtr_read True (RecvData []) m
        = Some (Some (status m), m\<lparr>socket := Some Socket, logger := logger m @ [Info_connected]\<rparr>))
   \<and> (update_status rtr_read connect_ok recv m = Some (r, m') \<longrightarrow>
        (socket m = None \<and> socket m' \<noteq> None \<longrightarrow> connect_ok \<and> recv \<noteq> RecvRaises)
      \<and> (socket m \<noteq> None \<and> socket m' = None \<longrightarrow> recv = RecvRaises)
      \<and> (socket m = None \<longrightarrow>
           (\<exists>rest. logger m' = logger m @ (if connect_ok then Info_connected else Error_connect) # rest)))"
proof -
  have read_error: "socket m \<noteq> None \<longrightarrow>
      update_status rtr_read connect_ok RecvRaises m
        = Some (None, m\<lparr>socket := None, logger := logger m @ [Error_read]\<rparr>)"
    by (auto simp add: update_status_def)
  have connect_then_read_error: "socket m = None \<longrightarrow>
      update_status rtr_read True RecvRaises m
        = Some (None, m\<lparr>socket := None, logger := logger m @ [Info_connected, Error_read]\<rparr>)"
    by (simp add: update_status_def connect_def)
  have connect_error: "socket m = None \<longrightarrow>
      update_status rtr_read False recv m
        = Some (None, m\<lparr>socket := None, logger := logger m @ [Error_connect]\<rparr>)"
    by (simp add: update_status_def connect_def)
  have reconnect: "socket m = None \<longrightarrow>
      update_status rtr_read True (RecvData []) m
        = Some (Some (status m), m\<lparr>socket := Some Socket, logger := logger m @ [Info_connected]\<rparr>)"
    by (simp add: update_status_def connect_def)
  have transitions: "update_status rtr_read connect_ok recv m = Some (r, m') \<longrightarrow>
        (socket m = None \<and> socket m' \<noteq> None \<longrightarrow> connect_ok \<and> recv \<noteq> RecvRaises)
      \<and> (socket m \<noteq> None \<and> socket m' = None \<longrightarrow> recv = RecvRaises)
      \<and> (socket m = None \<longrightarrow>
           (\<exists>rest. logger m' = logger m @ (if connect_ok then Info_connected else Error_connect) # rest))"
  proof
    assume ret: "update_status rtr_read connect_ok recv m = Some (r, m')"
    define m1 where "m1 = (if socket m = None then connect connect_ok m else m)"
    show "(socket m = None \<and> socket m' \<noteq> None \<longrightarrow> connect_ok \<and> recv \<noteq> RecvRaises)
      \<and> (socket m \<noteq> None \<and> socket m' = None \<longrightarrow> recv = RecvRaises)
      \<and> (socket m = None \<longrightarrow>
           (\<exists>rest. logger m' = logger m @ (if connect_ok then Info_connected else Error_connect) # rest))"
    proof (cases "socket m1 = None")
      case True
      with ret have "m' = m1"
        by (simp add: update_status_def m1_def [symmetric])
      with True show ?thesis
        by (auto simp add: m1_def connect_def split: if_splits)
    next
      case False
      show ?thesis
      proof (cases recv)
        case RecvRaises
        with ret False have "m' = m1\<lparr>socket := None, logger := logger m1 @ [Error_read]\<rparr>"
          by (simp add: update_status_def m1_def [symmetric])
        with RecvRaises show ?thesis
          by (auto simp add: m1_def connect_def split: if_splits)
      next
        case (RecvData data)
        have keep: "socket m' = socket m1 \<and> logger m' = logger m1"
        proof (cases "data = []")
          case True
          with ret False RecvData show ?thesis
            by (simp add: update_status_def m1_def [symmetric])
        next
          case nonempty: False
          with ret False RecvData
          have "drain rtr_read (m1\<lparr>buffer := buffer m1 @ data\<rparr>) = Some m'"
            by (auto simp add: update_status_def m1_def [symmetric] bind_eq_Some_conv)
          from drain_frame [OF this] show ?thesis by simp
        qed
        with False RecvData show ?thesis
          by (auto simp add: m1_def connect_def split: if_splits)
      qed
    qed
  qed
  from read_error connect_then_read_error connect_error reconnect transitions
  show ?thesis by blast
qed

text \<open>
  A live connection whose read raises; the next two calls, from the disconnected
  monitor, first fail to connect and then reconnect.
\<close>

theorem connection_state_machine_witness:
  "update_status sample_read False RecvRaises (GnssMonitor_init\<lparr>socket := Some Socket\<rparr>)
     = Some (None, GnssMonitor_init\<lparr>logger := [Error_read]\<rparr>)
   \<and> update_status sample_read False RecvRaises (GnssMonitor_init\<lparr>logger := [Error_read]\<rparr>)
     = Some (None, GnssMonitor_init\<lparr>logger := [Error_read, Error_connect]\<rparr>)
   \<and> update_status sample_read True (RecvData []) (GnssMonitor_init\<lparr>logger := [Error_read, Error_connect]\<rparr>)
     = Some (Some BaseStationStatus_init,
             GnssMonitor_init\<lparr>socket := Some Socket,
                               logger := [Error_read, Error_connect, Info_connected]\<rparr>)"
proof -
  let ?m0 = "GnssMonitor_init\<lparr>socket := Some Socket\<rparr>"
  let ?m1 = "GnssMonitor_init\<lparr>logger := [Error_read]\<rparr>"
  let ?m2 = "GnssMonitor_init\<lparr>logger := [Error_read, Error_connect]\<rparr>"
  have live: "socket ?m0 \<noteq> None" by simp
  have down1: "socket ?m1 = None" and down2: "socket ?m2 = None"
    by (simp_all add: GnssMonitor_init_def)
  from connection_state_machine [of ?m0 sample_read False RecvRaises None ?m1] live
  have first: "update_status sample_read False RecvRaises ?m0 = Some (None, ?m1)"
    by (simp add: GnssMonitor_init_def)
  from connection_state_machine [of ?m1 sample_read False RecvRaises None ?m2] down1
  have second: "update_status sample_read False RecvRaises ?m1 = Some (None, ?m2)"
    by (simp add: GnssMonitor_init_def)
  from connection_state_machine [of ?m2 sample_read False RecvRaises None ?m2] down2
  have third: "update_status sample_read True (RecvData []) ?m2
     = Some (Some BaseStationStatus_init,
             GnssMonitor_init\<lparr>socket := Some Socket,
                               logger := [Error_read, Error_connect, Info_connected]\<rparr>)"
    by (simp add: GnssMonitor_init_def)
  from first second third show ?thesis by simp
qed

text \<open>
  C10. The call never lets an exception out. With a reader that makes progress the
  call always returns: it returns \<open>None\<close> exactly when the monitor had no socket and
  the connect failed, or when the read raised; in every other case, a read of zero
  bytes included, it returns the status of the monitor, and a read of zero bytes on a
  live connection changes nothing.
\<close>

theorem update_status_returns:
  assumes "reader_progress rtr_read"
  shows "\<exists>r m'. update_status rtr_read connect_ok recv m = Some (r, m')
           \<and> (r = None \<longleftrightarrow> (socket m = None \<and> \<not> connect_ok) \<or> recv = RecvRaises)
           \<and> (r \<noteq> None \<longrightarrow> r = Some (status m'))
           \<and> (recv = RecvData [] \<and> socket m \<noteq> None \<longrightarrow> r = Some (status m) \<and> m' = m)"
proof -
  define m1 where "m1 = (if socket m = None then connect connect_ok m else m)"
  have sock: "socket m1 = None \<longleftrightarrow> socket m = None \<and> \<not> connect_ok"
    by (simp add: m1_def connect_def)
  show ?thesis
  proof (cases "socket m1 = None")
    case True
    then have "update_status rtr_read connect_ok recv m = Some (None, m1)"
      by (simp add: update_status_def m1_def [symmetric])
    with True sock show ?thesis by auto
  next
    case False
    show ?thesis
    proof (cases recv)
      case RecvRaises
      with False have "update_status rtr_read connect_ok recv m
          = Some (None, m1\<lparr>socket := None, logger := logger m1 @ [Error_read]\<rparr>)"
        by (auto simp add: update_status_def m1_def [symmetric])
      with RecvRaises show ?thesis by simp
    next
      case (RecvData data)
      show ?thesis
      proof (cases "data = []")
        case True
        with False RecvData
        have ret: "update_status rtr_read connect_ok recv m = Some (Some (status m1), m1)"
          by (auto simp add: update_status_def m1_def [symmetric])
        have "socket m \<noteq> None \<longrightarrow> m1 = m"
          by (simp add: m1_def)
        with ret False sock RecvData show ?thesis by auto
      next
        case nonempty: False
        obtain m2 where "drain rtr_read (m1\<lparr>buffer := buffer m1 @ data\<rparr>) = Some m2"
          using drain_terminates [OF assms] by blast
        with False RecvData nonempty
        have "update_status rtr_read connect_ok recv m = Some (Some (status m2), m2)"
          by (auto simp add: update_status_def m1_def [symmetric])
        with False sock RecvData nonempty show ?thesis by auto
      qed
    qed
  qed
qed

text \<open>
  The sample reader makes progress. A fresh monitor whose connect fails returns
  \<open>None\<close>; one that connects and receives a frame returns its status.
\<close>

theorem update_status_returns_witness:
  "reader_progress sample_read
   \<and> (\<exists>m'. update_status sample_read False (RecvData []) GnssMonitor_init = Some (None, m'))
   \<and> (\<exists>m'. update_status sample_read True (RecvData [0xD3, 1, 7, 7]) GnssMonitor_init
             = Some (Some (status m'), m'))"
proof -
  have none: "socket GnssMonitor_init = None"
    by (simp add: GnssMonitor_init_def)
  from update_status_returns [OF sample_read_progress, of False "RecvData []" GnssMonitor_init]
  have first: "\<exists>m'. update_status sample_read False (RecvData []) GnssMonitor_init = Some (None, m')"
    using none by auto
  from update_status_returns [OF sample_read_progress, of True "RecvData [0xD3, 1, 7, 7]" GnssMonitor_init]
  have second: "\<exists>m'. update_status sample_read True (RecvData [0xD3, 1, 7, 7]) GnssMonitor_init
             = Some (Some (status m'), m')"
    using none by auto
  from sample_read_progress first second show ?thesis by simp
qed

end
